theory Spec2Isabelle
  imports Main
begin

section \<open>Data model of \<^verbatim>\<open>src/decoration.ts\<close>\<close>

text \<open>
  Positions, lengths, sizes and biases are JavaScript numbers that only ever hold
  integers here; they are modelled as \<open>int\<close>. The shifts \<^verbatim>\<open>x >> k\<close> and
  \<^verbatim>\<open>x << k\<close> are written \<open>x div 2 ^ k\<close> and \<open>x * 2 ^ k\<close>, which agrees with
  JavaScript for values inside the signed 32-bit range.
\<close>

datatype error = RangeError | TypeError | OutOfFuel


text \<open>
  A widget is opaque to the core. The record keeps what \<^verbatim>\<open>WidgetType.compare\<close> and
  \<^verbatim>\<open>estimatedHeight\<close> can observe: the identity of the object, its constructor, and
  its \<^verbatim>\<open>spec\<close> value, compared with \<^verbatim>\<open>===\<close> by the default \<^verbatim>\<open>eq\<close>.
\<close>

record WidgetType =
  widget_id :: nat
  widget_constructor :: nat
  widget_spec :: nat
  estimatedHeight :: int

definition widget_eq :: "WidgetType \<Rightarrow> nat \<Rightarrow> bool" where
  "widget_eq w spec = (widget_spec w = spec)"

definition widget_compare :: "WidgetType \<Rightarrow> WidgetType \<Rightarrow> bool" where
  "widget_compare this other =
     (widget_id this = widget_id other \<or>
      widget_constructor this = widget_constructor other \<and> widget_eq this (widget_spec other))"

type_synonym attrs = "(string \<times> string) list"

datatype Collapsed = CollapsedBool bool | CollapsedWidget WidgetType

record DecorationRangeSpec =
  inclusiveStart :: "bool option"
  inclusiveEnd :: "bool option"
  attributes :: "attrs option"
  css_class :: "string option"
  lineAttributes :: "attrs option"
  tagName :: "string option"
  collapsed :: "Collapsed option"

record DecorationPointSpec =
  side :: "int option"
  pointLineAttributes :: "attrs option"
  widget :: "WidgetType option"

definition BIG_BIAS :: int where
  "BIG_BIAS = 2000000000"

text \<open>
  The two descriptor classes. Their derived fields (\<^verbatim>\<open>bias\<close>, \<^verbatim>\<open>endBias\<close>,
  \<^verbatim>\<open>affectsSpans\<close>, \<^verbatim>\<open>widget\<close>) are computed by the constructors from the spec
  and never change, so they are functions of the spec.
\<close>

datatype DecorationDesc = RangeDesc DecorationRangeSpec | PointDesc DecorationPointSpec

definition truthy_string :: "string option \<Rightarrow> bool" where
  "truthy_string s = (case s of None \<Rightarrow> False | Some v \<Rightarrow> v \<noteq> [])"

definition truthy_collapsed :: "Collapsed option \<Rightarrow> bool" where
  "truthy_collapsed c =
     (case c of None \<Rightarrow> False | Some (CollapsedBool b) \<Rightarrow> b | Some (CollapsedWidget w) \<Rightarrow> True)"

fun bias :: "DecorationDesc \<Rightarrow> int" where
  "bias (RangeDesc spec) = (if inclusiveStart spec = Some True then - BIG_BIAS else BIG_BIAS)"
| "bias (PointDesc spec) = (case side spec of None \<Rightarrow> 0 | Some s \<Rightarrow> s)"


definition affectsSpans :: "DecorationRangeSpec \<Rightarrow> bool" where
  "affectsSpans spec =
     (attributes spec \<noteq> None \<or> truthy_string (tagName spec) \<or> truthy_string (css_class spec)
      \<or> truthy_collapsed (collapsed spec))"

datatype Decoration = Decoration (dfrom: int) (dto: int) (desc: DecorationDesc)

definition move :: "Decoration \<Rightarrow> int \<Rightarrow> Decoration" where
  "move d offset =
     (if offset \<noteq> 0 then Decoration (dfrom d + offset) (dto d + offset) (desc d) else d)"

definition Decoration_range :: "int \<Rightarrow> int \<Rightarrow> DecorationRangeSpec \<Rightarrow> error + Decoration" where
  "Decoration_range from to spec =
     (if from \<ge> to then Inl RangeError else Inr (Decoration from to (RangeDesc spec)))"

definition Decoration_point :: "int \<Rightarrow> DecorationPointSpec \<Rightarrow> error + Decoration" where
  "Decoration_point pos spec = Inr (Decoration pos pos (PointDesc spec))"

subsection \<open>Mapping one decoration through changes\<close>





subsection \<open>The binary heap of \<^verbatim>\<open>Heapable\<close> values\<close>

definition bindE :: "error + 'a \<Rightarrow> ('a \<Rightarrow> error + 'b) \<Rightarrow> error + 'b" where
  "bindE m f = (case m of Inl e \<Rightarrow> Inl e | Inr x \<Rightarrow> f x)"

lemma bindE_cong [fundef_cong]:
  "m = m' \<Longrightarrow> (\<And>x. m' = Inr x \<Longrightarrow> f x = f' x) \<Longrightarrow> bindE m f = bindE m' f'"
  by (cases m') (simp_all add: bindE_def)

lemma bindE_simps [simp, code]:
  "bindE (Inl e) f = Inl e"
  "bindE (Inr x) f = f x"
  by (simp_all add: bindE_def)

text \<open>
  A \<^verbatim>\<open>LocalSet\<close> is a cursor into the local decorations of one node. The objects are
  mutable and compared by reference (\<^verbatim>\<open>next == this.a.tip\<close>), so each carries the
  identity it was created with. Its \<^verbatim>\<open>next\<close> field is only read by
  \<^verbatim>\<open>buildLineElements\<close> and is left out.
\<close>

record LocalSet =
  ls_id :: nat
  ls_offset :: int
  ls_decorations :: "Decoration list"
  ls_index :: nat

datatype Heapable = HLocalSet LocalSet | HDecoration Decoration

text \<open>Reading \<^verbatim>\<open>decorations[index]\<close> past the end gives \<^verbatim>\<open>undefined\<close>, and the
  property access on it throws.\<close>

definition LocalSet_current :: "LocalSet \<Rightarrow> error + Decoration" where
  "LocalSet_current l =
     (if ls_index l < length (ls_decorations l) then Inr (ls_decorations l ! ls_index l)
      else Inl TypeError)"

fun heapPos :: "Heapable \<Rightarrow> error + int" where
  "heapPos (HLocalSet l) = bindE (LocalSet_current l) (\<lambda>d. Inr (dfrom d + ls_offset l))"
| "heapPos (HDecoration d) = Inr (dto d)"

fun heapDesc :: "Heapable \<Rightarrow> error + DecorationDesc" where
  "heapDesc (HLocalSet l) = bindE (LocalSet_current l) (\<lambda>d. Inr (desc d))"
| "heapDesc (HDecoration d) = Inr (desc d)"

definition compareHeapable :: "Heapable \<Rightarrow> Heapable \<Rightarrow> error + int" where
  "compareHeapable a b =
     bindE (heapPos a) (\<lambda>pa. bindE (heapPos b) (\<lambda>pb.
       if pa - pb \<noteq> 0 then Inr (pa - pb)
       else bindE (heapDesc a) (\<lambda>da. bindE (heapDesc b) (\<lambda>db. Inr (bias da - bias db)))))"

text \<open>The loop of \<^verbatim>\<open>addToHeap\<close>; \<open>index\<close> is always inside the array.\<close>

function addToHeap_loop :: "Heapable list \<Rightarrow> Heapable \<Rightarrow> nat \<Rightarrow> error + Heapable list" where
  "addToHeap_loop heap elt index =
     (if index > 0 then
        (let parentIndex = index div 2; parent = heap ! parentIndex
         in case compareHeapable elt parent of
              Inl e \<Rightarrow> Inl e
            | Inr c \<Rightarrow>
                if c \<ge> 0 then Inr heap
                else addToHeap_loop (heap[index := parent, parentIndex := elt]) elt parentIndex)
      else Inr heap)"
  by pat_completeness auto
termination
  by (relation "measure (\<lambda>(heap, elt, index). index)") auto

definition addToHeap :: "Heapable list \<Rightarrow> Heapable \<Rightarrow> error + Heapable list" where
  "addToHeap heap elt = addToHeap_loop (heap @ [elt]) elt (length heap)"

text \<open>The loop of \<^verbatim>\<open>takeFromHeap\<close>, entered with a non-empty array.\<close>

function takeFromHeap_loop :: "Heapable list \<Rightarrow> Heapable \<Rightarrow> nat \<Rightarrow> error + Heapable list" where
  "takeFromHeap_loop heap replacement index =
     (let childIndex = 2 * index + 1
      in if childIndex \<ge> length heap then Inr heap
         else
           case (if childIndex + 1 < length heap
                 then bindE (compareHeapable (heap ! childIndex) (heap ! (childIndex + 1)))
                        (\<lambda>c. Inr (c \<ge> 0))
                 else Inr False) of
             Inl e \<Rightarrow> Inl e
           | Inr right \<Rightarrow>
               (let childIndex = (if right then childIndex + 1 else childIndex);
                    child = heap ! childIndex
                in case compareHeapable replacement child of
                     Inl e \<Rightarrow> Inl e
                   | Inr c \<Rightarrow>
                       if c < 0 then Inr heap
                       else takeFromHeap_loop (heap[childIndex := replacement, index := child])
                              replacement childIndex))"
  by pat_completeness auto
termination
  by (relation "measure (\<lambda>(heap, replacement, index). length heap - index)")
     (auto split: if_splits)

text \<open>
  \<^verbatim>\<open>takeFromHeap\<close> returns the old first element and leaves the rest in the array. On an
  empty array both reads give \<^verbatim>\<open>undefined\<close>, which is what it returns (\<open>None\<close>).
\<close>

definition takeFromHeap :: "Heapable list \<Rightarrow> error + (Heapable option \<times> Heapable list)" where
  "takeFromHeap heap =
     (case heap of
        [] \<Rightarrow> Inr (None, [])
      | elt # _ \<Rightarrow>
          (let replacement = last heap; heap = butlast heap
           in if length heap = 0 then Inr (Some elt, heap)
              else bindE (takeFromHeap_loop (heap[0 := replacement]) replacement 0)
                     (\<lambda>heap. Inr (Some elt, heap))))"

text \<open>A sequence of heap operations on one array, collecting what the takes return.\<close>

datatype heap_op = Add Heapable | Take

fun heap_ops :: "heap_op list \<Rightarrow> Heapable list \<Rightarrow> error + (Heapable option list \<times> Heapable list)" where
  "heap_ops [] heap = Inr ([], heap)"
| "heap_ops (Add elt # ops) heap = bindE (addToHeap heap elt) (\<lambda>heap. heap_ops ops heap)"
| "heap_ops (Take # ops) heap =
     bindE (takeFromHeap heap) (\<lambda>(elt, heap).
       bindE (heap_ops ops heap) (\<lambda>(taken, heap). Inr (elt # taken, heap)))"

definition heapable_le :: "Heapable \<Rightarrow> Heapable \<Rightarrow> bool" where
  "heapable_le a b = (case compareHeapable a b of Inl e \<Rightarrow> False | Inr c \<Rightarrow> c \<le> 0)"

text \<open>The heap property: no element is greater than its children at \<open>2i+1\<close> and \<open>2i+2\<close>.\<close>

definition heap_property :: "Heapable list \<Rightarrow> bool" where
  "heap_property heap =
     list_all (\<lambda>i. (2 * i + 1 < length heap \<longrightarrow> heapable_le (heap ! i) (heap ! (2 * i + 1))) \<and>
                   (2 * i + 2 < length heap \<longrightarrow> heapable_le (heap ! i) (heap ! (2 * i + 2))))
       [0..<length heap]"

text \<open>A point decoration with an empty spec, used as a heap element ending at \<open>pos\<close>.\<close>

definition plain_point_spec :: DecorationPointSpec where
  "plain_point_spec = \<lparr>side = None, pointLineAttributes = None, widget = None\<rparr>"

definition ending_at :: "int \<Rightarrow> Heapable" where
  "ending_at pos = HDecoration (Decoration pos pos (PointDesc plain_point_spec))"

section \<open>Decoration sets\<close>

datatype DecorationSet =
  DecorationSet (set_length: int) (set_size: int) (local: "Decoration list")
    (children: "DecorationSet list")

definition DecorationSet_empty :: DecorationSet where
  "DecorationSet_empty = DecorationSet 0 0 [] []"

definition BASE_NODE_SIZE_SHIFT :: nat where
  "BASE_NODE_SIZE_SHIFT = 5"

definition BASE_NODE_SIZE :: int where
  "BASE_NODE_SIZE = 2 ^ BASE_NODE_SIZE_SHIFT"

text \<open>
  A filter receives \<^verbatim>\<open>deco.spec\<close>, which is \<^verbatim>\<open>deco.desc.spec\<close>; the descriptor of the
  model is its spec together with its variant, so the filter receives the descriptor.
\<close>

type_synonym DecorationFilter = "int \<Rightarrow> int \<Rightarrow> DecorationDesc \<Rightarrow> bool"

text \<open>
  Methods that return either \<^verbatim>\<open>this\<close> or a newly built object, and whose callers tell
  the two apart with \<^verbatim>\<open>!=\<close>, return \<open>Same\<close> or \<open>Fresh\<close>.
\<close>

datatype 'a ref_result = Same | Fresh 'a

definition deref :: "'a \<Rightarrow> 'a ref_result \<Rightarrow> 'a" where
  "deref this r = (case r of Same \<Rightarrow> this | Fresh x \<Rightarrow> x)"

definition byPos :: "Decoration \<Rightarrow> Decoration \<Rightarrow> int" where
  "byPos a b =
     (if dfrom a - dfrom b \<noteq> 0 then dfrom a - dfrom b else bias (desc a) - bias (desc b))"

text \<open>\<^verbatim>\<open>Array.prototype.sort\<close> with \<^verbatim>\<open>byPos\<close>, as a stable insertion sort. The order the
  engine gives to decorations that \<^verbatim>\<open>byPos\<close> does not tell apart plays no part in what
  is proved below.\<close>

fun insort_byPos :: "Decoration \<Rightarrow> Decoration list \<Rightarrow> Decoration list" where
  "insort_byPos d [] = [d]"
| "insort_byPos d (x # xs) = (if byPos d x \<le> 0 then d # x # xs else x # insort_byPos d xs)"

definition sort_byPos :: "Decoration list \<Rightarrow> Decoration list" where
  "sort_byPos ds = foldr insort_byPos ds []"

definition insertSorted :: "Decoration list \<Rightarrow> Decoration \<Rightarrow> Decoration list" where
  "insertSorted target deco =
     (let i = length target - length (takeWhile (\<lambda>t. byPos t deco \<ge> 0) (rev target))
      in take i target @ deco # drop i target)"

text \<open>The loop of \<^verbatim>\<open>filterDecorations\<close>; \<open>seen\<close> is \<^verbatim>\<open>decorations.slice(0, i)\<close>.\<close>

fun filterDecorations_loop ::
  "Decoration list \<Rightarrow> Decoration list \<Rightarrow> DecorationFilter \<Rightarrow> int \<Rightarrow> int \<Rightarrow> int \<Rightarrow>
   Decoration list option \<Rightarrow> Decoration list option" where
  "filterDecorations_loop [] seen flt filterFrom filterTo offset copy = copy"
| "filterDecorations_loop (deco # rest) seen flt filterFrom filterTo offset copy =
     (let from = dfrom deco + offset; to = dto deco + offset
      in if filterFrom > to \<or> filterTo < from \<or> flt from to (desc deco)
         then filterDecorations_loop rest (seen @ [deco]) flt filterFrom filterTo offset
                (case copy of None \<Rightarrow> None | Some c \<Rightarrow> Some (c @ [deco]))
         else filterDecorations_loop rest (seen @ [deco]) flt filterFrom filterTo offset
                (case copy of None \<Rightarrow> Some seen | Some c \<Rightarrow> Some c))"

definition filterDecorations ::
  "Decoration list \<Rightarrow> DecorationFilter option \<Rightarrow> int \<Rightarrow> int \<Rightarrow> int \<Rightarrow> Decoration list option" where
  "filterDecorations decorations flt filterFrom filterTo offset =
     (case flt of
        None \<Rightarrow> None
      | Some f \<Rightarrow> filterDecorations_loop decorations [] f filterFrom filterTo offset None)"

fun collect :: "DecorationSet \<Rightarrow> int \<Rightarrow> Decoration list"
  and collect_children :: "DecorationSet list \<Rightarrow> int \<Rightarrow> Decoration list" where
  "collect (DecorationSet len sz loc chs) offset =
     map (\<lambda>deco. move deco offset) loc @ collect_children chs offset"
| "collect_children [] offset = []"
| "collect_children (child # chs) offset =
     collect child offset @ collect_children chs (offset + set_length child)"

text \<open>
  \<^verbatim>\<open>collapseSet\<close>. The children are collected with \<^verbatim>\<open>child.collect(local, -off)\<close>, every
  element of \<^verbatim>\<open>add\<close> is pushed, and the parameter \<^verbatim>\<open>start\<close> is not read.
\<close>

fun collapse_children :: "DecorationSet list \<Rightarrow> int \<Rightarrow> Decoration list" where
  "collapse_children [] off = []"
| "collapse_children (child # chs) off =
     collect child (- off) @ collapse_children chs (off + set_length child)"

definition collapseSet ::
  "DecorationSet list \<Rightarrow> Decoration list \<Rightarrow> Decoration list \<Rightarrow> nat \<Rightarrow> int \<Rightarrow> int \<Rightarrow>
   DecorationSet" where
  "collapseSet chs loc add start offset len =
     (let mustSort = (length loc > 0 \<and> length add > 0);
          loc = loc @ collapse_children chs 0;
          loc = loc @ map (\<lambda>added. move added (- offset)) add;
          loc = (if mustSort then sort_byPos loc else loc)
      in DecorationSet len (int (length loc)) loc [])"

definition grow :: "DecorationSet \<Rightarrow> int \<Rightarrow> DecorationSet" where
  "grow this len =
     DecorationSet (set_length this + len) (set_size this) (local this) (children this)"

text \<open>
  \<^verbatim>\<open>updateInner\<close>, \<^verbatim>\<open>appendDecorations\<close> and \<^verbatim>\<open>rebalanceChildren\<close> call each other
  (\<^verbatim>\<open>rebalanceChildren\<close> through \<^verbatim>\<open>joined.update\<close>). The recursive call is the
  parameter \<open>rec\<close> of each part; \<open>updateInner\<close> below closes the recursion with a budget
  of nested calls and loop rounds, and \<open>OutOfFuel\<close> is the answer of a budget that was
  too small.
\<close>

type_synonym updateInner_fn =
  "DecorationSet \<Rightarrow> Decoration list \<Rightarrow> DecorationFilter option \<Rightarrow> int \<Rightarrow> int \<Rightarrow> int \<Rightarrow> int \<Rightarrow>
   error + DecorationSet ref_result"

text \<open>The inner \<^verbatim>\<open>while\<close> loop of \<^verbatim>\<open>updateInner\<close>: the additions that start before
  \<open>endPos\<close> go to the node's own array when they reach past \<open>endPos\<close> and to the child's
  bucket otherwise. The list argument is \<^verbatim>\<open>decorations\<close> from \<^verbatim>\<open>decI\<close> on.\<close>

fun distribute_child ::
  "Decoration list \<Rightarrow> int \<Rightarrow> int \<Rightarrow> Decoration list \<Rightarrow> Decoration list option \<Rightarrow>
   Decoration list option \<Rightarrow> Decoration list option \<times> Decoration list option \<times> Decoration list" where
  "distribute_child [] endPos offset this_local loc localDeco = (loc, localDeco, [])"
| "distribute_child (next # rest) endPos offset this_local loc localDeco =
     (if dfrom next \<ge> endPos then (loc, localDeco, next # rest)
      else if dto next > endPos
      then distribute_child rest endPos offset this_local
             (Some (insertSorted (case loc of None \<Rightarrow> this_local | Some l \<Rightarrow> l)
                      (move next (- offset))))
             localDeco
      else distribute_child rest endPos offset this_local loc
             (Some ((case localDeco of None \<Rightarrow> [] | Some l \<Rightarrow> l) @ [next])))"

text \<open>The loop over \<^verbatim>\<open>this.children\<close>; \<open>seen\<close> is \<^verbatim>\<open>this.children.slice(0, i)\<close>.\<close>

fun distribute ::
  "updateInner_fn \<Rightarrow> DecorationSet list \<Rightarrow> DecorationSet list \<Rightarrow> Decoration list \<Rightarrow>
   DecorationFilter option \<Rightarrow> int \<Rightarrow> int \<Rightarrow> int \<Rightarrow> Decoration list \<Rightarrow>
   Decoration list option \<Rightarrow> DecorationSet list option \<Rightarrow> int \<Rightarrow> int \<Rightarrow>
   error + (Decoration list option \<times> DecorationSet list option \<times> int \<times> Decoration list \<times> int)" where
  "distribute rec [] seen decorations flt filterFrom filterTo offset this_local loc chs sz pos =
     Inr (loc, chs, sz, decorations, pos)"
| "distribute rec (child # others) seen decorations flt filterFrom filterTo offset this_local
     loc chs sz pos =
     (let endPos = pos + set_length child
      in case distribute_child decorations endPos offset this_local loc None of
           (loc, localDeco, decorations) \<Rightarrow>
             bindE (if localDeco \<noteq> None \<or> (flt \<noteq> None \<and> filterFrom \<le> endPos \<and> filterTo \<ge> pos)
                    then rec child (case localDeco of None \<Rightarrow> [] | Some l \<Rightarrow> l) flt
                           filterFrom filterTo pos (set_length child)
                    else Inr Same)
               (\<lambda>r. let newChild = deref child r;
                        chs = (case r of
                                 Fresh c \<Rightarrow> Some ((case chs of None \<Rightarrow> seen | Some cs \<Rightarrow> cs) @ [c])
                               | Same \<Rightarrow> (case chs of None \<Rightarrow> None | Some cs \<Rightarrow> Some (cs @ [child])))
                    in distribute rec others (seen @ [child]) decorations flt filterFrom filterTo
                         offset this_local loc chs (sz + set_size newChild) endPos))"

text \<open>
  \<^verbatim>\<open>update\<close> with all four arguments given, over a given \<^verbatim>\<open>updateInner\<close>. The defaults
  of the source are \<^verbatim>\<open>filter = null\<close>, \<^verbatim>\<open>filterFrom = 0\<close>, \<^verbatim>\<open>filterTo = this.length\<close>.
\<close>

definition update_with ::
  "updateInner_fn \<Rightarrow> DecorationSet \<Rightarrow> Decoration list \<Rightarrow> DecorationFilter option \<Rightarrow> int \<Rightarrow> int \<Rightarrow>
   error + DecorationSet ref_result" where
  "update_with rec this decorations flt filterFrom filterTo =
     (let maxLen = foldl (\<lambda>l d. max l (dto d)) (set_length this) decorations
      in rec this (if decorations \<noteq> [] then sort_byPos decorations else decorations)
           flt filterFrom filterTo 0 maxLen)"

text \<open>One round of the outer loop of \<^verbatim>\<open>appendDecorations\<close>: the next \<open>childSize\<close>
  additions. The list argument is \<^verbatim>\<open>decorations\<close> from \<open>i\<close> on.\<close>

fun appendDecorations_group ::
  "Decoration list \<Rightarrow> int \<Rightarrow> int \<Rightarrow> Decoration list \<Rightarrow> Decoration list \<Rightarrow>
   Decoration list \<times> Decoration list" where
  "appendDecorations_group [] endPos offset loc add = (loc, add)"
| "appendDecorations_group (deco # grp) endPos offset loc add =
     (if dto deco > endPos
      then appendDecorations_group grp endPos offset (insertSorted loc (move deco (- offset))) add
      else appendDecorations_group grp endPos offset loc (add @ [deco]))"

primrec appendDecorations ::
  "nat \<Rightarrow> updateInner_fn \<Rightarrow> Decoration list \<Rightarrow> DecorationSet list \<Rightarrow> Decoration list \<Rightarrow>
   int \<Rightarrow> int \<Rightarrow> int \<Rightarrow> int \<Rightarrow> error + (Decoration list \<times> DecorationSet list)" where
  "appendDecorations 0 rec loc chs decorations offset len pos childSize =
     (if decorations = [] then Inr (loc, chs) else Inl OutOfFuel)"
| "appendDecorations (Suc fuel) rec loc chs decorations offset len pos childSize =
     (if decorations = [] then Inr (loc, chs)
      else
        (let grp = take (nat childSize) decorations;
             later = drop (nat childSize) decorations;
             endPos = (case later of [] \<Rightarrow> offset + len | deco # _ \<Rightarrow> dfrom deco)
         in case appendDecorations_group grp endPos offset loc [] of
              (loc, add) \<Rightarrow>
                if add \<noteq> []
                then bindE (rec DecorationSet_empty add None 0 0 pos (endPos - pos))
                       (\<lambda>r. appendDecorations fuel rec loc (chs @ [deref DecorationSet_empty r])
                              later offset len endPos childSize)
                else appendDecorations fuel rec loc chs later offset len pos childSize))"

subsection \<open>Rebalancing the children of a node\<close>

text \<open>
  The state of the loop of \<^verbatim>\<open>rebalanceChildren\<close>. The function changes the caller's
  arrays in place, but it also rebinds its parameter \<^verbatim>\<open>local\<close> to the shared constant
  \<^verbatim>\<open>noDecorations\<close> once the caller's array has been emptied; whatever it inserts after
  that goes to the shared array and not to the caller's. \<open>rb_detached\<close> is \<open>None\<close> while
  the parameter still is the caller's array and holds the elements written to the shared
  array afterwards. Wherever the shared constant is read as a value it is taken to be empty.
\<close>

record rebalance_state =
  rb_i :: int
  rb_off :: int
  rb_local :: "Decoration list"
  rb_detached :: "Decoration list option"
  rb_children :: "DecorationSet list"

definition rb_current :: "rebalance_state \<Rightarrow> Decoration list" where
  "rb_current st = (case rb_detached st of None \<Rightarrow> rb_local st | Some xs \<Rightarrow> xs)"

definition rb_assign :: "rebalance_state \<Rightarrow> Decoration list \<Rightarrow> rebalance_state" where
  "rb_assign st xs =
     (case rb_detached st of
        None \<Rightarrow> st\<lparr>rb_local := xs\<rparr>
      | Some _ \<Rightarrow> st\<lparr>rb_detached := Some xs\<rparr>)"

text \<open>The inner loop that extends the run \<^verbatim>\<open>[i, joinTo)\<close>; the list argument is
  \<^verbatim>\<open>children\<close> from \<^verbatim>\<open>joinTo\<close> on.\<close>

fun join_run :: "DecorationSet list \<Rightarrow> nat \<Rightarrow> int \<Rightarrow> int \<Rightarrow> int \<Rightarrow> nat \<times> int \<times> int" where
  "join_run [] joinTo sz len childSize = (joinTo, sz, len)"
| "join_run (next # rest) joinTo sz len childSize =
     (let totalSize = sz + set_size next
      in if totalSize > childSize then (joinTo, sz, len)
         else join_run rest (joinTo + 1) totalSize (len + set_length next) childSize)"

text \<open>The loop over \<^verbatim>\<open>local\<close> that moves the decorations inside
  \<^verbatim>\<open>[off, off + length]\<close> into \<^verbatim>\<open>joinedLocals\<close>: what stays, and what is moved.\<close>

definition pull_locals ::
  "Decoration list \<Rightarrow> int \<Rightarrow> int \<Rightarrow> Decoration list \<times> Decoration list" where
  "pull_locals loc off len =
     (filter (\<lambda>deco. \<not> (dfrom deco \<ge> off \<and> dto deco \<le> off + len)) loc,
      map (\<lambda>deco. move deco (- off))
        (filter (\<lambda>deco. dfrom deco \<ge> off \<and> dto deco \<le> off + len) loc))"

definition after_pull :: "rebalance_state \<Rightarrow> Decoration list \<Rightarrow> Decoration list \<Rightarrow> rebalance_state" where
  "after_pull st kept joinedLocals =
     (case rb_detached st of
        None \<Rightarrow>
          if kept = [] \<and> joinedLocals \<noteq> [] then st\<lparr>rb_local := [], rb_detached := Some []\<rparr>
          else st\<lparr>rb_local := kept\<rparr>
      | Some _ \<Rightarrow> st\<lparr>rb_detached := Some kept\<rparr>)"

text \<open>One round of the loop, for \<open>0 \<le> i < children.length\<close>.\<close>

definition rebalance_step ::
  "updateInner_fn \<Rightarrow> int \<Rightarrow> rebalance_state \<Rightarrow> error + rebalance_state" where
  "rebalance_step rec childSize st =
     (let chs = rb_children st; i = nat (rb_i st); child = chs ! i
      in if set_size child = 0 \<and> (rb_i st > 0 \<or> length chs = 1) then
           \<comment> \<open>Drop empty node\<close>
           (let chs = take i chs @ drop (i + 1) chs;
                i' = rb_i st - 1;
                chs = (if i' \<ge> 0 then chs[nat i' := grow (chs ! nat i') (set_length child)]
                       else chs)
            in Inr (st\<lparr>rb_i := i', rb_children := chs\<rparr>))
         else if set_size child > childSize * 2
                 \<and> int (length (local child)) < set_length child div 2 then
           \<comment> \<open>Unwrap an overly big node\<close>
           Inr ((rb_assign st
                   (foldl (\<lambda>l deco. insertSorted l (move deco (rb_off st))) (rb_current st)
                      (local child)))
                 \<lparr>rb_children := take i chs @ children child @ drop (i + 1) chs\<rparr>)
         else if children child = [] \<and> rb_i st < int (length chs) - 1
                 \<and> set_size (chs ! (i + 1)) + set_size child \<le> BASE_NODE_SIZE
                 \<and> children (chs ! (i + 1)) = [] then
           \<comment> \<open>Join two small leaf nodes\<close>
           (let next = chs ! (i + 1)
            in Inr (st\<lparr>rb_children :=
                         take i chs @
                         [DecorationSet (set_length child + set_length next)
                            (set_size child + set_size next)
                            (local child @ map (\<lambda>d. move d (set_length child)) (local next)) []] @
                         drop (i + 2) chs,
                       rb_off := rb_off st + set_length child + set_length next\<rparr>))
         else
           \<comment> \<open>Join a number of nodes into a wrapper node\<close>
           (case (if set_size child < childSize div 2
                  then join_run (drop (i + 1) chs) (i + 1) (set_size child) (set_length child)
                         childSize
                  else (i + 1, set_size child, set_length child)) of
              (joinTo, sz, len) \<Rightarrow>
                if joinTo > i + 1 then
                  (let joined = DecorationSet len sz [] (take (joinTo - i) (drop i chs))
                   in case pull_locals (rb_current st) (rb_off st) len of
                        (kept, joinedLocals) \<Rightarrow>
                          bindE (if joinedLocals \<noteq> []
                                 then bindE (update_with rec joined (sort_byPos joinedLocals) None 0
                                               (set_length joined))
                                        (\<lambda>r. Inr (deref joined r))
                                 else Inr joined)
                            (\<lambda>joined.
                               Inr ((after_pull st kept joinedLocals)
                                      \<lparr>rb_children := take i chs @ [joined] @ drop joinTo chs,
                                       rb_i := int joinTo,
                                       rb_off := rb_off st + len\<rparr>)))
                else Inr (st\<lparr>rb_i := rb_i st + 1, rb_off := rb_off st + set_length child\<rparr>)))"

text \<open>
  The loop. With \<open>i = -1\<close>, which the first branch produces when it drops the only child,
  the test \<^verbatim>\<open>i < children.length\<close> still holds, \<^verbatim>\<open>children[i]\<close> is \<^verbatim>\<open>undefined\<close> and
  reading its \<^verbatim>\<open>size\<close> throws.
\<close>

primrec rebalanceChildren_loop ::
  "nat \<Rightarrow> updateInner_fn \<Rightarrow> int \<Rightarrow> rebalance_state \<Rightarrow> error + rebalance_state" where
  "rebalanceChildren_loop 0 rec childSize st =
     (if rb_i st < int (length (rb_children st)) then Inl OutOfFuel else Inr st)"
| "rebalanceChildren_loop (Suc fuel) rec childSize st =
     (if rb_i st < int (length (rb_children st)) then
        (if rb_i st < 0 then Inl TypeError
         else bindE (rebalance_step rec childSize st) (rebalanceChildren_loop fuel rec childSize))
      else Inr st)"

definition rebalanceChildren ::
  "nat \<Rightarrow> updateInner_fn \<Rightarrow> Decoration list \<Rightarrow> DecorationSet list \<Rightarrow> int \<Rightarrow>
   error + (Decoration list \<times> DecorationSet list)" where
  "rebalanceChildren fuel rec loc chs childSize =
     bindE (rebalanceChildren_loop fuel rec childSize
              \<lparr>rb_i = 0, rb_off = 0, rb_local = loc, rb_detached = None, rb_children = chs\<rparr>)
       (\<lambda>st. Inr (rb_local st, rb_children st))"

subsection \<open>\<^verbatim>\<open>updateInner\<close>, \<^verbatim>\<open>update\<close> and \<^verbatim>\<open>of\<close>\<close>

definition updateInner_body ::
  "nat \<Rightarrow> updateInner_fn \<Rightarrow> DecorationSet \<Rightarrow> Decoration list \<Rightarrow> DecorationFilter option \<Rightarrow>
   int \<Rightarrow> int \<Rightarrow> int \<Rightarrow> int \<Rightarrow> error + DecorationSet ref_result" where
  "updateInner_body fuel rec this decorations flt filterFrom filterTo offset len =
     bindE (distribute rec (children this) [] decorations flt filterFrom filterTo offset (local this)
              (filterDecorations (local this) flt filterFrom filterTo offset) None 0 offset)
       (\<lambda>(loc, chs, sz, remaining, pos).
          \<comment> \<open>If nothing was actually updated, return the existing object\<close>
          if loc = None \<and> chs = None \<and> remaining = [] then Inr Same
          else
            (let sz = sz + int (length (case loc of None \<Rightarrow> local this | Some l \<Rightarrow> l))
                        + int (length remaining)
             in if sz \<le> BASE_NODE_SIZE
                then Inr (Fresh (collapseSet (case chs of None \<Rightarrow> children this | Some c \<Rightarrow> c)
                                   (case loc of None \<Rightarrow> local this | Some l \<Rightarrow> l) decorations
                                   (length decorations - length remaining) offset len))
                else
                  (let childSize = max BASE_NODE_SIZE (sz div 2 ^ BASE_NODE_SIZE_SHIFT)
                   in bindE (if remaining \<noteq> []
                             then bindE (appendDecorations fuel rec
                                           (case loc of None \<Rightarrow> local this | Some l \<Rightarrow> l)
                                           (case chs of None \<Rightarrow> children this | Some c \<Rightarrow> c)
                                           remaining offset len pos childSize)
                                    (\<lambda>(l, c). Inr (Some l, Some c))
                             else Inr (loc, chs))
                        (\<lambda>(loc, chs).
                           bindE (case chs of
                                    None \<Rightarrow> Inr (loc, chs)
                                  | Some c \<Rightarrow>
                                      bindE (rebalanceChildren fuel rec
                                               (case loc of None \<Rightarrow> local this | Some l \<Rightarrow> l)
                                               c childSize)
                                        (\<lambda>(l, c). Inr (Some l, Some c)))
                             (\<lambda>(loc, chs).
                                Inr (Fresh (DecorationSet len sz
                                              (case loc of None \<Rightarrow> local this | Some l \<Rightarrow> l)
                                              (case chs of None \<Rightarrow> children this
                                               | Some c \<Rightarrow> c))))))))"

primrec updateInner ::
  "nat \<Rightarrow> DecorationSet \<Rightarrow> Decoration list \<Rightarrow> DecorationFilter option \<Rightarrow> int \<Rightarrow> int \<Rightarrow> int \<Rightarrow> int \<Rightarrow>
   error + DecorationSet ref_result" where
  "updateInner 0 = (\<lambda>this decorations flt filterFrom filterTo offset len. Inl OutOfFuel)"
| "updateInner (Suc fuel) = updateInner_body fuel (updateInner fuel)"

definition update ::
  "nat \<Rightarrow> DecorationSet \<Rightarrow> Decoration list \<Rightarrow> DecorationFilter option \<Rightarrow> int \<Rightarrow> int \<Rightarrow>
   error + DecorationSet ref_result" where
  "update fuel = update_with (updateInner fuel)"

text \<open>\<^verbatim>\<open>DecorationSet.of\<close> takes an array of decorations or a single decoration.\<close>

definition DecorationSet_of :: "nat \<Rightarrow> Decoration list + Decoration \<Rightarrow> error + DecorationSet" where
  "DecorationSet_of fuel decorations =
     (case decorations of
        Inr deco \<Rightarrow>
          bindE (update fuel DecorationSet_empty [deco] None 0 (set_length DecorationSet_empty))
            (\<lambda>r. Inr (deref DecorationSet_empty r))
      | Inl decos \<Rightarrow>
          if decos \<noteq> []
          then bindE (update fuel DecorationSet_empty decos None 0 (set_length DecorationSet_empty))
                 (\<lambda>r. Inr (deref DecorationSet_empty r))
          else Inr DecorationSet_empty)"

subsection \<open>Mapping a set through changes\<close>







section \<open>Comparing two sets: \<^verbatim>\<open>changedRanges\<close>\<close>

definition MIN_RANGE_GAP :: int where
  "MIN_RANGE_GAP = 4"

text \<open>On an empty array \<^verbatim>\<open>ranges[ranges.length - 1]\<close> is \<^verbatim>\<open>undefined\<close>, the sum is
  \<^verbatim>\<open>NaN\<close> and the comparison is false.\<close>

definition addRange :: "int \<Rightarrow> int \<Rightarrow> int list \<Rightarrow> int list" where
  "addRange from to ranges =
     (if ranges \<noteq> [] \<and> last ranges + MIN_RANGE_GAP > from then butlast ranges @ [to]
      else ranges @ [from, to])"

record Changes =
  content :: "int list"
  height :: "int list"

definition no_changes :: Changes where
  "no_changes = \<lparr>content = [], height = []\<rparr>"

record ChangedRange =
  fromA :: int
  toA :: int
  fromB :: int
  toB :: int

subsection \<open>Equality of descriptors and widgets\<close>

text \<open>
  Two attribute objects; an object has every key once. \<^verbatim>\<open>a == b\<close> holds for one object
  and for two absent ones, and then the comparison of the keys would succeed as well.
\<close>

definition attrsEq :: "attrs option \<Rightarrow> attrs option \<Rightarrow> bool" where
  "attrsEq a b =
     (if a = b then True
      else case (a, b) of
             (Some x, Some y) \<Rightarrow>
               length x = length y \<and>
               list_all (\<lambda>(key, v). key \<in> set (map fst y) \<and> map_of y key = Some v) x
           | _ \<Rightarrow> False)"

definition collapsed_identical :: "Collapsed option \<Rightarrow> Collapsed option \<Rightarrow> bool" where
  "collapsed_identical collA collB =
     (case (collA, collB) of
        (None, None) \<Rightarrow> True
      | (Some (CollapsedBool x), Some (CollapsedBool y)) \<Rightarrow> x = y
      | (Some (CollapsedWidget w), Some (CollapsedWidget v)) \<Rightarrow> widget_id w = widget_id v
      | _ \<Rightarrow> False)"

definition collapsed_widgets_compare :: "Collapsed option \<Rightarrow> Collapsed option \<Rightarrow> bool" where
  "collapsed_widgets_compare collA collB =
     (case (collA, collB) of
        (Some (CollapsedWidget w), Some (CollapsedWidget v)) \<Rightarrow> widget_compare w v
      | _ \<Rightarrow> False)"

text \<open>
  \<^verbatim>\<open>RangeDesc.eq\<close>. Descriptor objects are compared by reference in the source
  (\<^verbatim>\<open>this == other\<close>, \<^verbatim>\<open>indexOf\<close>); the model compares their values. One object has
  one value, and for two descriptors of one value the remaining tests of \<^verbatim>\<open>eq\<close> succeed,
  so \<^verbatim>\<open>eq\<close> and \<^verbatim>\<open>compareActiveSets\<close> answer as in the source.
\<close>

definition RangeDesc_eq :: "DecorationRangeSpec \<Rightarrow> DecorationRangeSpec \<Rightarrow> bool" where
  "RangeDesc_eq this other =
     (this = other \<or>
      tagName this = tagName other \<and> css_class this = css_class other \<and>
      (collapsed_identical (collapsed this) (collapsed other) \<or>
       collapsed_widgets_compare (collapsed this) (collapsed other)) \<and>
      attrsEq (attributes this) (attributes other))"

definition compareActiveSets :: "DecorationRangeSpec list \<Rightarrow> DecorationRangeSpec list \<Rightarrow> bool" where
  "compareActiveSets active otherActive =
     (length active = length otherActive \<and>
      list_all (\<lambda>d. d \<in> set otherActive \<or> list_ex (\<lambda>other. RangeDesc_eq d other) otherActive)
        active)"

definition compareWidgetSets :: "WidgetType list \<Rightarrow> WidgetType list \<Rightarrow> bool" where
  "compareWidgetSets widgets otherWidgets =
     (length widgets = length otherWidgets \<and>
      list_all (\<lambda>w. list_ex (\<lambda>other. widget_id other = widget_id w) otherWidgets
                   \<or> list_ex (\<lambda>other. widget_compare w other) otherWidgets)
        widgets)"

text \<open>\<^verbatim>\<open>remove\<close>: the last element takes the place of the first occurrence of \<open>elt\<close>;
  when \<open>elt\<close> does not occur, the write goes to the property \<^verbatim>\<open>-1\<close> and the array
  only loses its last element.\<close>

fun index_of :: "'a \<Rightarrow> 'a list \<Rightarrow> nat option" where
  "index_of x [] = None"
| "index_of x (y # ys) = (if x = y then Some 0 else map_option Suc (index_of x ys))"

definition remove_elt :: "'a list \<Rightarrow> 'a \<Rightarrow> 'a list" where
  "remove_elt array elt =
     (if array = [] then []
      else
        (let found = index_of elt array; l = last array; array = butlast array
         in case found of
              None \<Rightarrow> array
            | Some f \<Rightarrow> if f \<noteq> length array then array[f := l] else array))"

subsection \<open>Iterating over a set\<close>

record IteratedSet =
  it_index :: nat
  it_offset :: int
  it_set :: DecorationSet

definition new_IteratedSet :: "int \<Rightarrow> DecorationSet \<Rightarrow> IteratedSet" where
  "new_IteratedSet offset s = \<lparr>it_index = 0, it_offset = offset, it_set = s\<rparr>"

text \<open>A stack is a list whose head is the top \<^verbatim>\<open>stack[stack.length - 1]\<close>.\<close>

function iterDecorationSet :: "IteratedSet list \<Rightarrow> int \<Rightarrow> error + IteratedSet list" where
  "iterDecorationSet [] skipTo = Inr []"
| "iterDecorationSet (topmost # stack) skipTo =
     (if it_index topmost = length (children (it_set topmost)) then iterDecorationSet stack skipTo
      else if it_index topmost > length (children (it_set topmost)) then Inl TypeError
      else
        (let next = children (it_set topmost) ! it_index topmost;
             start = it_offset topmost;
             topmost = topmost\<lparr>it_index := it_index topmost + 1, it_offset := it_offset topmost + set_length next\<rparr>
         in if it_offset topmost \<ge> skipTo then Inr (new_IteratedSet start next # topmost # stack)
            else iterDecorationSet (topmost # stack) skipTo))"
  by pat_completeness auto
termination
  by (relation "measure (\<lambda>(stack, skipTo).
        sum_list (map (\<lambda>e. Suc (length (children (it_set e)) - it_index e)) stack))")
     auto

record ComparisonSide =
  heap :: "Heapable list"
  active :: "DecorationRangeSpec list"
  widgets :: "WidgetType list"
  tip :: "nat option"
  collapsedTo :: int
  stack :: "IteratedSet list"

definition new_ComparisonSide :: "IteratedSet list \<Rightarrow> ComparisonSide" where
  "new_ComparisonSide st =
     \<lparr>heap = [], active = [], widgets = [], tip = None, collapsedTo = - 1, stack = st\<rparr>"

text \<open>\<^verbatim>\<open>ComparisonSide.forward\<close>; \<open>fresh\<close> is the identity of the \<^verbatim>\<open>LocalSet\<close> it
  may create. It returns the side and \<^verbatim>\<open>newTip\<close>.\<close>

definition forward ::
  "ComparisonSide \<Rightarrow> nat \<Rightarrow> int \<Rightarrow> IteratedSet \<Rightarrow> error + (ComparisonSide \<times> bool)" where
  "forward this fresh start next =
     bindE (if local (it_set next) \<noteq> []
            then (let loc = \<lparr>ls_id = fresh, ls_offset = it_offset next,
                              ls_decorations = local (it_set next), ls_index = 0\<rparr>
                  in bindE (addToHeap (heap this) (HLocalSet loc))
                       (\<lambda>h. if children (it_set next) = []
                            then Inr (this\<lparr>heap := h, tip := Some fresh\<rparr>, True)
                            else Inr (this\<lparr>heap := h\<rparr>, False)))
            else Inr (this, False))
       (\<lambda>(this, newTip).
          bindE (iterDecorationSet (stack this) start)
            (\<lambda>st. Inr (this\<lparr>stack := st\<rparr>, newTip)))"

subsection \<open>\<^verbatim>\<open>DecorationSetComparison\<close>\<close>

text \<open>
  \<open>cmp_a\<close> and \<open>cmp_b\<close> are the two sides, \<open>cmp_changes\<close> the \<^verbatim>\<open>Changes\<close> object the
  comparison writes to, \<open>cmp_fresh\<close> the next unused \<^verbatim>\<open>LocalSet\<close> identity. Whether two
  nodes are the same object is not a matter of their values; the relation \<open>same\<close> says it,
  and is an argument of everything that asks.
\<close>

record DecorationSetComparison =
  cmp_a :: ComparisonSide
  cmp_b :: ComparisonSide
  cmp_pos :: int
  cmp_end :: int
  cmp_changes :: Changes
  cmp_fresh :: nat

datatype side_id = SIDE_A | SIDE_B

definition get_side :: "side_id \<Rightarrow> DecorationSetComparison \<Rightarrow> ComparisonSide" where
  "get_side which c = (case which of SIDE_A \<Rightarrow> cmp_a c | SIDE_B \<Rightarrow> cmp_b c)"

definition set_side :: "side_id \<Rightarrow> ComparisonSide \<Rightarrow> DecorationSetComparison \<Rightarrow> DecorationSetComparison" where
  "set_side which s c = (case which of SIDE_A \<Rightarrow> c\<lparr>cmp_a := s\<rparr> | SIDE_B \<Rightarrow> c\<lparr>cmp_b := s\<rparr>)"

text \<open>\<^verbatim>\<open>forwardIter(side)\<close>; the bit mask \<^verbatim>\<open>side\<close> is the pair \<open>(sideA, sideB)\<close>.\<close>

primrec forwardIter ::
  "nat \<Rightarrow> (DecorationSet \<Rightarrow> DecorationSet \<Rightarrow> bool) \<Rightarrow> bool \<Rightarrow> bool \<Rightarrow> DecorationSetComparison \<Rightarrow>
   error + DecorationSetComparison" where
  "forwardIter 0 same sideA sideB c = (if sideA \<or> sideB then Inl OutOfFuel else Inr c)"
| "forwardIter (Suc fuel) same sideA sideB c =
     (if sideA \<or> sideB then
        (case (stack (cmp_a c), stack (cmp_b c)) of
           (nextA # restA, nextB # restB) \<Rightarrow>
             if it_offset nextA = it_offset nextB \<and> same (it_set nextA) (it_set nextB) then
               bindE (iterDecorationSet (stack (cmp_a c)) (cmp_pos c)) (\<lambda>sa.
               bindE (iterDecorationSet (stack (cmp_b c)) (cmp_pos c)) (\<lambda>sb.
                 forwardIter fuel same sideA sideB
                   (c\<lparr>cmp_a := (cmp_a c)\<lparr>stack := sa\<rparr>, cmp_b := (cmp_b c)\<lparr>stack := sb\<rparr>\<rparr>)))
             else if it_offset nextA < it_offset nextB \<or>
                     it_offset nextA = it_offset nextB \<and>
                       (length (stack (cmp_a c)) = 1 \<or>
                        set_length (it_set nextA) \<ge> set_length (it_set nextB)) then
               bindE (forward (cmp_a c) (cmp_fresh c) (cmp_pos c) nextA) (\<lambda>(a, newTip).
                 forwardIter fuel same (sideA \<and> \<not> newTip) sideB
                   (c\<lparr>cmp_a := a, cmp_fresh := cmp_fresh c + 1\<rparr>))
             else
               bindE (forward (cmp_b c) (cmp_fresh c) (cmp_pos c) nextB) (\<lambda>(b, newTip).
                 forwardIter fuel same sideA (sideB \<and> \<not> newTip)
                   (c\<lparr>cmp_b := b, cmp_fresh := cmp_fresh c + 1\<rparr>))
         | (nextA # restA, []) \<Rightarrow>
             bindE (forward (cmp_a c) (cmp_fresh c) (cmp_pos c) nextA) (\<lambda>(a, newTip).
               forwardIter fuel same (sideA \<and> \<not> newTip) sideB
                 (c\<lparr>cmp_a := a, cmp_fresh := cmp_fresh c + 1\<rparr>))
         | ([], nextB # restB) \<Rightarrow>
             bindE (forward (cmp_b c) (cmp_fresh c) (cmp_pos c) nextB) (\<lambda>(b, newTip).
               forwardIter fuel same sideA (sideB \<and> \<not> newTip)
                 (c\<lparr>cmp_b := b, cmp_fresh := cmp_fresh c + 1\<rparr>))
         | ([], []) \<Rightarrow> Inr c)
      else Inr c)"

definition new_DecorationSetComparison ::
  "nat \<Rightarrow> (DecorationSet \<Rightarrow> DecorationSet \<Rightarrow> bool) \<Rightarrow> DecorationSet \<Rightarrow> int \<Rightarrow> DecorationSet \<Rightarrow>
   int \<Rightarrow> int \<Rightarrow> Changes \<Rightarrow> error + DecorationSetComparison" where
  "new_DecorationSetComparison fuel same a startA b startB endB changes =
     forwardIter fuel same True True
       \<lparr>cmp_a = new_ComparisonSide [new_IteratedSet (startB - startA) a],
        cmp_b = new_ComparisonSide [new_IteratedSet 0 b],
        cmp_pos = startB, cmp_end = endB, cmp_changes = changes, cmp_fresh = 0\<rparr>"

definition advancePos :: "int \<Rightarrow> DecorationSetComparison \<Rightarrow> DecorationSetComparison" where
  "advancePos p c =
     (let pos = (if p > cmp_end c then cmp_end c else p)
      in if pos \<le> cmp_pos c then c
         else
           (let c = (if widgets (cmp_a c) \<noteq> [] \<or> widgets (cmp_b c) \<noteq> []
                     then (let ch = (if \<not> compareWidgetSets (widgets (cmp_a c)) (widgets (cmp_b c))
                                     then (cmp_changes c)
                                            \<lparr>content := addRange pos pos (content (cmp_changes c)),
                                             height := addRange pos pos (height (cmp_changes c))\<rparr>
                                     else cmp_changes c)
                           in c\<lparr>cmp_changes := ch,
                                cmp_a := (cmp_a c)\<lparr>widgets := []\<rparr>,
                                cmp_b := (cmp_b c)\<lparr>widgets := []\<rparr>\<rparr>)
                     else c);
                c = (if \<not> compareActiveSets (active (cmp_a c)) (active (cmp_b c))
                     then (let ch = (cmp_changes c)
                                      \<lparr>content := addRange (cmp_pos c) pos (content (cmp_changes c))\<rparr>;
                               ch = (if (collapsedTo (cmp_a c) > cmp_pos c)
                                        \<noteq> (collapsedTo (cmp_b c) > cmp_pos c)
                                     then ch\<lparr>height := addRange (cmp_pos c) pos (height ch)\<rparr>
                                     else ch)
                           in c\<lparr>cmp_changes := ch\<rparr>)
                     else c)
            in c\<lparr>cmp_pos := pos\<rparr>))"

text \<open>\<^verbatim>\<open>advance(side)\<close>, where \<open>which\<close> says which of the two sides \<^verbatim>\<open>side\<close> is.\<close>

definition advance ::
  "nat \<Rightarrow> (DecorationSet \<Rightarrow> DecorationSet \<Rightarrow> bool) \<Rightarrow> side_id \<Rightarrow> DecorationSetComparison \<Rightarrow>
   error + DecorationSetComparison" where
  "advance fuel same which c =
     bindE (takeFromHeap (heap (get_side which c))) (\<lambda>(taken, h).
       let c = set_side which ((get_side which c)\<lparr>heap := h\<rparr>) c
       in case taken of
            None \<Rightarrow> Inl TypeError
          | Some (HLocalSet next) \<Rightarrow>
              bindE (LocalSet_current next) (\<lambda>deco.
                let next = next\<lparr>ls_index := ls_index next + 1\<rparr>
                in if dfrom deco + ls_offset next > cmp_end c
                   then Inr ((set_side which ((get_side which c)\<lparr>heap := []\<rparr>) c)
                               \<lparr>cmp_pos := cmp_end c\<rparr>)
                   else
                     bindE
                       (case desc deco of
                          RangeDesc spec \<Rightarrow>
                            if affectsSpans spec \<and> dto deco + ls_offset next > cmp_pos c then
                              (let c = advancePos (dfrom deco + ls_offset next) c;
                                   deco = move deco (ls_offset next);
                                   sd = get_side which c;
                                   sd = (case collapsed spec of
                                             Some (CollapsedWidget w) \<Rightarrow>
                                               sd\<lparr>widgets := widgets sd @ [w]\<rparr>
                                           | _ \<Rightarrow> sd);
                                   sd = (if truthy_collapsed (collapsed spec)
                                           then sd\<lparr>collapsedTo := max (collapsedTo sd) (dto deco)\<rparr>
                                           else sd);
                                   c = set_side which sd c;
                                   c = (if truthy_collapsed (collapsed spec)
                                        then (let bothTo = min (collapsedTo (cmp_a c))
                                                          (collapsedTo (cmp_b c))
                                              in if bothTo > cmp_pos c then c\<lparr>cmp_pos := bothTo\<rparr> else c)
                                        else c);
                                   sd = get_side which c
                               in bindE (addToHeap (heap sd) (HDecoration deco))
                                    (\<lambda>h. Inr (set_side which
                                                (sd\<lparr>active := active sd @ [spec], heap := h\<rparr>) c)))
                            else Inr c
                        | PointDesc spec \<Rightarrow>
                            (case widget spec of
                               Some w \<Rightarrow>
                                 (let c = advancePos (dfrom deco) c; sd = get_side which c
                                  in Inr (set_side which (sd\<lparr>widgets := widgets sd @ [w]\<rparr>) c))
                             | None \<Rightarrow> Inr c))
                       (\<lambda>c. if ls_index next < length (ls_decorations next)
                            then bindE (addToHeap (heap (get_side which c)) (HLocalSet next))
                                   (\<lambda>h. Inr (set_side which ((get_side which c)\<lparr>heap := h\<rparr>) c))
                            else if tip (cmp_a c) = Some (ls_id next)
                            then forwardIter fuel same True False c
                            else if tip (cmp_b c) = Some (ls_id next)
                            then forwardIter fuel same False True c
                            else Inr c))
          | Some (HDecoration deco) \<Rightarrow>
              (let c = advancePos (dto deco) c; sd = get_side which c
               in Inr (set_side which
                         (sd\<lparr>active := (case desc deco of
                                            RangeDesc spec \<Rightarrow> remove_elt (active sd) spec
                                          | PointDesc spec \<Rightarrow> butlast (active sd))\<rparr>) c)))"

text \<open>The test at the head of the loop of \<^verbatim>\<open>run\<close>: whether side A is advanced.\<close>

definition a_is_next :: "Heapable list \<Rightarrow> Heapable list \<Rightarrow> error + bool" where
  "a_is_next heapA heapB =
     (if heapA \<noteq> [] then
        (if heapB = [] then Inr True
         else bindE (compareHeapable (hd heapA) (hd heapB)) (\<lambda>cmp. Inr (cmp < 0)))
      else Inr False)"

primrec run ::
  "nat \<Rightarrow> (DecorationSet \<Rightarrow> DecorationSet \<Rightarrow> bool) \<Rightarrow> DecorationSetComparison \<Rightarrow> error + Changes" where
  "run 0 same c = Inl OutOfFuel"
| "run (Suc fuel) same c =
     bindE (a_is_next (heap (cmp_a c)) (heap (cmp_b c))) (\<lambda>a_next.
       if a_next then bindE (advance fuel same SIDE_A c) (run fuel same)
       else if heap (cmp_b c) \<noteq> [] then bindE (advance fuel same SIDE_B c) (run fuel same)
       else if \<not> compareWidgetSets (widgets (cmp_a c)) (widgets (cmp_b c))
       then Inr ((cmp_changes c)
                   \<lparr>content := addRange (cmp_pos c) (cmp_pos c) (content (cmp_changes c)),
                    height := addRange (cmp_pos c) (cmp_pos c) (height (cmp_changes c))\<rparr>)
       else Inr (cmp_changes c))"

text \<open>\<^verbatim>\<open>new DecorationSetComparison(a, startA, b, startB, endB, changes).run()\<close>\<close>

definition compare_sets ::
  "nat \<Rightarrow> (DecorationSet \<Rightarrow> DecorationSet \<Rightarrow> bool) \<Rightarrow> DecorationSet \<Rightarrow> int \<Rightarrow> DecorationSet \<Rightarrow>
   int \<Rightarrow> int \<Rightarrow> Changes \<Rightarrow> error + Changes" where
  "compare_sets fuel same a startA b startB endB changes =
     bindE (new_DecorationSetComparison fuel same a startA b startB endB changes) (run fuel same)"

text \<open>The loop of \<^verbatim>\<open>changedRanges\<close> over \<^verbatim>\<open>textDiff\<close>, with its three variables.\<close>

fun changedRanges_loop ::
  "nat \<Rightarrow> (DecorationSet \<Rightarrow> DecorationSet \<Rightarrow> bool) \<Rightarrow> DecorationSet \<Rightarrow> DecorationSet \<Rightarrow>
   ChangedRange list \<Rightarrow> Changes \<Rightarrow> int \<Rightarrow> int \<Rightarrow> error + (Changes \<times> int \<times> int)" where
  "changedRanges_loop fuel same this other [] changes oldPos newPos = Inr (changes, oldPos, newPos)"
| "changedRanges_loop fuel same this other (rng # textDiff) changes oldPos newPos =
     bindE (if fromB rng > newPos \<and> (\<not> same this other \<or> oldPos \<noteq> newPos)
            then compare_sets fuel same this oldPos other newPos (fromB rng) changes
            else Inr changes)
       (\<lambda>changes. changedRanges_loop fuel same this other textDiff changes (toA rng) (toB rng))"

definition changedRanges ::
  "nat \<Rightarrow> (DecorationSet \<Rightarrow> DecorationSet \<Rightarrow> bool) \<Rightarrow> DecorationSet \<Rightarrow> DecorationSet \<Rightarrow>
   ChangedRange list \<Rightarrow> error + Changes" where
  "changedRanges fuel same this other textDiff =
     bindE (changedRanges_loop fuel same this other textDiff no_changes 0 0)
       (\<lambda>(changes, oldPos, newPos).
          if oldPos < set_length this \<or> newPos < set_length other
          then compare_sets fuel same this oldPos other newPos
                 (max (set_length this - oldPos + newPos) (set_length other)) changes
          else Inr changes)"

subsection \<open>The reference reading of \<^verbatim>\<open>Decoration.map\<close>\<close>



definition plain_range_spec :: DecorationRangeSpec where
  "plain_range_spec =
     \<lparr>inclusiveStart = None, inclusiveEnd = None, attributes = None, css_class = None,
      lineAttributes = None, tagName = None, collapsed = None\<rparr>"


section \<open>Invariants and example inputs\<close>

fun sorted_byPos :: "Decoration list \<Rightarrow> bool" where
  "sorted_byPos [] = True"
| "sorted_byPos [d] = True"
| "sorted_byPos (d # e # ds) = (byPos d e \<le> 0 \<and> sorted_byPos (e # ds))"

text \<open>The four invariants of a node, for every node of the tree.\<close>

fun invariant :: "DecorationSet \<Rightarrow> bool" where
  "invariant (DecorationSet len sz loc chs) =
     (sz = int (length loc) + sum_list (map set_size chs) \<and>
      sum_list (map set_length chs) \<le> len \<and>
      sorted_byPos loc \<and>
      list_all (\<lambda>d. 0 \<le> dfrom d \<and> dfrom d \<le> dto d \<and> dto d \<le> len) loc \<and>
      list_all invariant chs)"


text \<open>The range decoration \<^verbatim>\<open>Decoration.range(i, i + 1, {})\<close>, the first \<open>n\<close> of them, and
  the set that \<^verbatim>\<open>DecorationSet.of\<close> builds from the first 33.\<close>

definition unit_range :: "int \<Rightarrow> Decoration" where
  "unit_range i = Decoration i (i + 1) (RangeDesc plain_range_spec)"

definition unit_ranges :: "nat \<Rightarrow> Decoration list" where
  "unit_ranges n = map (\<lambda>i. unit_range (int i)) [0..<n]"

definition set33 :: DecorationSet where
  "set33 = DecorationSet 33 33 []
             [DecorationSet 32 32 (unit_ranges 32) [], DecorationSet 1 1 [unit_range 0] []]"


definition children_length :: "DecorationSet list \<Rightarrow> int" where
  "children_length chs = sum_list (map set_length chs)"

text \<open>Inputs of \<^verbatim>\<open>changedRanges\<close>: a collapsed range with a widget, a collapsed range
  without one, and a range with an attribute.\<close>

definition some_widget :: WidgetType where
  "some_widget = \<lparr>widget_id = 1, widget_constructor = 1, widget_spec = 1, estimatedHeight = - 1\<rparr>"

definition collapsed_widget_range :: "int \<Rightarrow> int \<Rightarrow> Decoration" where
  "collapsed_widget_range a b =
     Decoration a b (RangeDesc (plain_range_spec\<lparr>collapsed := Some (CollapsedWidget some_widget)\<rparr>))"

definition collapsed_range :: "int \<Rightarrow> int \<Rightarrow> Decoration" where
  "collapsed_range a b =
     Decoration a b (RangeDesc (plain_range_spec\<lparr>collapsed := Some (CollapsedBool True)\<rparr>))"

definition attribute_range :: "int \<Rightarrow> int \<Rightarrow> string \<Rightarrow> Decoration" where
  "attribute_range a b name =
     Decoration a b (RangeDesc (plain_range_spec\<lparr>attributes := Some [(name, ''y'')]\<rparr>))"

text \<open>Two sets built apart from each other share no node.\<close>

definition distinct_objects :: "DecorationSet \<Rightarrow> DecorationSet \<Rightarrow> bool" where
  "distinct_objects a b = False"


text \<open>Where the child at index \<open>i\<close> starts, for children laid out from \<open>start\<close>; and the
  length that \<^verbatim>\<open>mapInner\<close> computes for it, \<^verbatim>\<open>newChildEnd - newPos\<close>.\<close>

definition child_start :: "int \<Rightarrow> DecorationSet list \<Rightarrow> nat \<Rightarrow> int" where
  "child_start start chs i = start + children_length (take i chs)"



text \<open>The set of the test \<^verbatim>\<open>notices added decorations\<close> and the set after the update.\<close>

definition two_ranges :: DecorationSet where
  "two_ranges = DecorationSet 11 2 [attribute_range 2 4 ''a'', attribute_range 8 11 ''a''] []"

definition four_ranges :: DecorationSet where
  "four_ranges = DecorationSet 107 4
     [attribute_range 2 4 ''a'', attribute_range 3 9 ''b'', attribute_range 8 11 ''a'',
      attribute_range 106 107 ''b''] []"

section \<open>Verified properties\<close>

subsection \<open>Constructing decorations\<close>

text \<open>
  C5. \<^verbatim>\<open>Decoration.range(from, to, spec)\<close> throws its \<^verbatim>\<open>RangeError\<close> if and only if
  \<open>from \<ge> to\<close>, and otherwise returns a decoration with exactly the given \<open>from\<close> and
  \<open>to\<close>; \<^verbatim>\<open>Decoration.point(pos, spec)\<close> never fails and returns a decoration with
  \<open>from = to = pos\<close>.
\<close>

theorem Decoration_range_point_construction:
  "(isl (Decoration_range from to rspec) \<longleftrightarrow> from \<ge> to) \<and>
   (isl (Decoration_range from to rspec) \<longrightarrow> Decoration_range from to rspec = Inl RangeError) \<and>
   (from < to \<longrightarrow>
      (\<exists>d. Decoration_range from to rspec = Inr d \<and> dfrom d = from \<and> dto d = to
           \<and> desc d = RangeDesc rspec)) \<and>
   (\<exists>d. Decoration_point pos pspec = Inr d \<and> dfrom d = pos \<and> dto d = pos
        \<and> desc d = PointDesc pspec)"
  by (simp add: Decoration_range_def Decoration_point_def)

theorem Decoration_range_point_construction_witness:
  "isl (Decoration_range 2 2 plain_range_spec) \<and>
   Decoration_range 2 2 plain_range_spec = Inl RangeError \<and>
   (\<exists>d. Decoration_range 1 2 plain_range_spec = Inr d \<and> dfrom d = 1 \<and> dto d = 2
        \<and> desc d = RangeDesc plain_range_spec) \<and>
   (\<exists>d. Decoration_point 7 plain_point_spec = Inr d \<and> dfrom d = 7 \<and> dto d = 7
        \<and> desc d = PointDesc plain_point_spec)"
  using Decoration_range_point_construction [of 2 2 plain_range_spec 7 plain_point_spec]
    Decoration_range_point_construction [of 1 2 plain_range_spec 7 plain_point_spec]
  by simp

subsection \<open>Mapping one decoration\<close>





subsection \<open>The heap\<close>

text \<open>
  C4. The claim is that \<^verbatim>\<open>addToHeap\<close> and \<^verbatim>\<open>takeFromHeap\<close> keep a binary min-heap
  and that \<^verbatim>\<open>takeFromHeap\<close> returns a minimal element. \<^verbatim>\<open>addToHeap\<close> takes
  \<^verbatim>\<open>index >> 1\<close> for the parent of \<open>index\<close>, while \<^verbatim>\<open>takeFromHeap\<close> takes \<open>2i+1\<close>
  and \<open>2i+2\<close> for the children of \<open>i\<close>. Starting from the empty array, five additions, one
  take and one more addition leave an array without the heap property; continuing, the
  fourth take returns an element ending at 2 while one ending at 1 is still in the array.
\<close>

theorem heap_order_broken:
  "heap_ops [Add (ending_at 0), Add (ending_at 0), Add (ending_at 1), Add (ending_at 2),
             Add (ending_at 2), Take, Add (ending_at 1)] []
     = Inr ([Some (ending_at 0)],
            [ending_at 0, ending_at 2, ending_at 1, ending_at 2, ending_at 1]) \<and>
   \<not> heap_property [ending_at 0, ending_at 2, ending_at 1, ending_at 2, ending_at 1] \<and>
   heap_ops [Add (ending_at 0), Add (ending_at 0), Add (ending_at 1), Add (ending_at 2),
             Add (ending_at 2), Take, Add (ending_at 1), Add (ending_at 2), Add (ending_at 2),
             Take, Take, Take] []
     = Inr ([Some (ending_at 0), Some (ending_at 0), Some (ending_at 1), Some (ending_at 2)],
            [ending_at 1, ending_at 2, ending_at 2, ending_at 2])"
  by code_simp

theorem heap_order_broken_witness:
  "\<not> heap_property [ending_at 0, ending_at 2, ending_at 1, ending_at 2, ending_at 1] \<and>
   heap_ops [Add (ending_at 0), Add (ending_at 0), Add (ending_at 1), Add (ending_at 2),
             Add (ending_at 2), Take, Add (ending_at 1)] []
     = Inr ([Some (ending_at 0)],
            [ending_at 0, ending_at 2, ending_at 1, ending_at 2, ending_at 1])"
  using heap_order_broken by simp

subsection \<open>Updating a set\<close>

lemma of_unit_ranges_33: "DecorationSet_of 5 (Inl (unit_ranges 33)) = Inr set33"
  by code_simp

text \<open>
  C1. The claim is that every node of a set returned by \<^verbatim>\<open>of\<close>, \<^verbatim>\<open>update\<close> or
  \<^verbatim>\<open>map\<close> satisfies the four invariants. \<^verbatim>\<open>collapseSet\<close> collects the children with
  \<^verbatim>\<open>child.collect(local, -off)\<close>, which moves the decorations of every child but the
  first to the left instead of to the right. The set built by \<^verbatim>\<open>of\<close> from the 33 ranges
  \<open>[i, i+1]\<close> satisfies the invariants; filtering it down to the one range that starts at
  32 returns a leaf that holds that range at \<open>[-32, -31]\<close>.
\<close>

theorem update_collapse_moves_decoration:
  "DecorationSet_of 5 (Inl (unit_ranges 33)) = Inr set33 \<and>
   invariant set33 \<and>
   update 5 set33 [] (Some (\<lambda>from to spec. from \<ge> 32)) 0 (set_length set33) =
     Inr (Fresh (DecorationSet 33 1 [Decoration (- 32) (- 31) (RangeDesc plain_range_spec)] [])) \<and>
   \<not> invariant (DecorationSet 33 1 [Decoration (- 32) (- 31) (RangeDesc plain_range_spec)] [])"
  by code_simp

theorem update_collapse_moves_decoration_witness:
  "invariant set33 \<and>
   \<not> invariant (DecorationSet 33 1 [Decoration (- 32) (- 31) (RangeDesc plain_range_spec)] [])"
  using update_collapse_moves_decoration by simp

text \<open>
  C2. The claim is that the decorations of the updated set are exactly the old ones that
  were kept, at their old positions, and the new ones. \<^verbatim>\<open>collapseSet\<close> pushes every
  element of \<^verbatim>\<open>add\<close> and does not read its parameter \<^verbatim>\<open>start\<close>, so an addition
  that was already handed to a child is added a second time. Updating the set of the 33
  ranges with one point at 5 and a filter that drops every old decoration returns a set
  that holds the point twice.
\<close>

theorem update_collapse_duplicates_addition:
  "DecorationSet_of 5 (Inl (unit_ranges 33)) = Inr set33 \<and>
   (\<exists>s. update 5 set33 [Decoration 5 5 (PointDesc plain_point_spec)]
           (Some (\<lambda>from to spec. False)) 0 (set_length set33) = Inr (Fresh s) \<and>
        collect s 0 = [Decoration 5 5 (PointDesc plain_point_spec),
                       Decoration 5 5 (PointDesc plain_point_spec)])"
proof -
  have "update 5 set33 [Decoration 5 5 (PointDesc plain_point_spec)]
           (Some (\<lambda>from to spec. False)) 0 (set_length set33) =
        Inr (Fresh (DecorationSet 33 2 [Decoration 5 5 (PointDesc plain_point_spec),
                       Decoration 5 5 (PointDesc plain_point_spec)] []))"
    by code_simp
  moreover have "collect (DecorationSet 33 2 [Decoration 5 5 (PointDesc plain_point_spec),
                       Decoration 5 5 (PointDesc plain_point_spec)] []) 0 =
      [Decoration 5 5 (PointDesc plain_point_spec), Decoration 5 5 (PointDesc plain_point_spec)]"
    by code_simp
  ultimately show ?thesis using of_unit_ranges_33 by simp
qed

theorem update_collapse_duplicates_addition_witness:
  "\<exists>s. update 5 set33 [Decoration 5 5 (PointDesc plain_point_spec)]
           (Some (\<lambda>from to spec. False)) 0 (set_length set33) = Inr (Fresh s) \<and>
        collect s 0 = [Decoration 5 5 (PointDesc plain_point_spec),
                       Decoration 5 5 (PointDesc plain_point_spec)]"
  using update_collapse_duplicates_addition by simp

subsection \<open>Returning the receiver\<close>









subsection \<open>Dropping an empty child\<close>

lemma rb_i_after_pull [simp]: "rb_i (after_pull st kept joinedLocals) = rb_i st"
  by (simp add: after_pull_def split: option.splits)

lemma rb_i_rb_assign [simp]: "rb_i (rb_assign st xs) = rb_i st"
  by (simp add: rb_assign_def split: option.splits)









subsection \<open>The ranges reported by \<^verbatim>\<open>changedRanges\<close>\<close>

text \<open>
  C7. The claim is that the arrays list their pairs in ascending order. When a collapsed
  range is open on both sides, \<^verbatim>\<open>advance\<close> moves \<^verbatim>\<open>this.pos\<close> to the end of the
  shorter one without the bound \<^verbatim>\<open>this.end\<close> that \<^verbatim>\<open>advancePos\<close> keeps, and \<^verbatim>\<open>run\<close>
  reports a widget difference there. The old set holds a collapsed range \<open>[5, 100]\<close> with a
  widget, the new set a collapsed range \<open>[5, 200]\<close> without one, and the text between 10
  and 105 was deleted and the text from 175 on replaced: the comparison of the first ten
  positions reports \<open>[100, 100]\<close>, and the comparison of the stretch from 10 to 80 then
  sets the end of that pair to 80.
\<close>

theorem changedRanges_not_ascending:
  "DecorationSet_of 5 (Inl [collapsed_widget_range 5 100]) =
     Inr (DecorationSet 100 1 [collapsed_widget_range 5 100] []) \<and>
   DecorationSet_of 5 (Inl [collapsed_range 5 200]) =
     Inr (DecorationSet 200 1 [collapsed_range 5 200] []) \<and>
   changedRanges 20 distinct_objects
     (DecorationSet 100 1 [collapsed_widget_range 5 100] [])
     (DecorationSet 200 1 [collapsed_range 5 200] [])
     [\<lparr>fromA = 10, toA = 105, fromB = 10, toB = 10\<rparr>,
      \<lparr>fromA = 175, toA = 400, fromB = 80, toB = 300\<rparr>] =
     Inr \<lparr>content = [100, 80], height = [100, 80]\<rparr>"
  by code_simp

theorem changedRanges_not_ascending_witness:
  "changedRanges 20 distinct_objects
     (DecorationSet 100 1 [collapsed_widget_range 5 100] [])
     (DecorationSet 200 1 [collapsed_range 5 200] [])
     [\<lparr>fromA = 10, toA = 105, fromB = 10, toB = 10\<rparr>,
      \<lparr>fromA = 175, toA = 400, fromB = 80, toB = 300\<rparr>] =
     Inr \<lparr>content = [100, 80], height = [100, 80]\<rparr>"
  using changedRanges_not_ascending by simp



lemma four_ranges_update:
  "update 5 two_ranges [attribute_range 3 9 ''b'', attribute_range 106 107 ''b''] None 0
     (set_length two_ranges) = Inr (Fresh four_ranges)"
  by code_simp



subsection \<open>Mapping reuses the children that no change touches\<close>








lemma child_start_0 [simp]: "child_start oldPos chs 0 = oldPos"
  by (simp add: child_start_def children_length_def)








end
